theory Spec2Isabelle
  imports Main
begin

section \<open>The idn2 extension module (idn2module.c)\<close>

text \<open>
  The module wraps four entry points of GNU libidn2 as Python functions
  \<open>utoa\<close>, \<open>lookup\<close>, \<open>register\<close> and \<open>atou\<close>, and raises the exception
  \<open>idn2.error\<close> when the library returns an error code.  The library itself and its
  header \<open>idn2.h\<close> are not part of the module: the header's constants and the four
  library functions are parameters of the model (\<open>idn2_h\<close>, \<open>idn2_lib\<close>), and
  what the library computes (normalisation, validation of labels, Punycode, length
  limits) is not described here.  The functions of the CPython API that the module
  calls are modelled as the C-API reference describes them.
\<close>

subsection \<open>Python objects, exceptions and the error indicator\<close>

text \<open>
  A C string is a list of bytes (\<open>string\<close>) without the terminating NUL.  A Python
  \<open>str\<close> is its list of code points, a \<open>bytes\<close> object its list of bytes.
  \<open>PyBuffer\<close> is an object of another type that the argument parser takes as a
  read-only bytes-like object (a \<open>ctypes\<close> char array, for one), with the bytes of
  its buffer; \<open>PyOther\<close> stands for an object of any other type.
\<close>

datatype pyobject =
    PyNone
  | is_PyUnicode: PyUnicode "nat list"
  | is_PyBytes: PyBytes string
  | PyBuffer string
  | PyOther

text \<open>
  \<open>NewException name\<close> is the class made by \<open>PyErr_NewException(name, NULL, NULL)\<close>;
  the others are the built-in classes the argument parser and the UTF-8 decoder raise.
\<close>

datatype exc_class =
    NewException string
  | TypeError
  | ValueError
  | SystemError
  | UnicodeEncodeError
  | UnicodeDecodeError

text \<open>
  \<open>Err cls msg\<close> is an exception set by this module with the message \<open>msg\<close>;
  \<open>ApiErr cls\<close> is one set inside a CPython API function, with CPython's own message.
  The state of the interpreter that the module touches is the error indicator:
  \<open>None\<close> when no exception is pending.
\<close>

datatype pyerr = Err exc_class string | ApiErr exc_class

type_synonym pystate = "pyerr option"

definition PyErr_SetString :: "exc_class \<Rightarrow> string \<Rightarrow> pystate \<Rightarrow> pystate" where
  "PyErr_SetString cls msg st = Some (Err cls msg)"

definition PyErr_SetObject :: "exc_class \<Rightarrow> string \<Rightarrow> pystate \<Rightarrow> pystate" where
  "PyErr_SetObject cls val st = Some (Err cls val)"

text \<open>\<open>PyInit_idn2\<close>: \<open>Idn2Error = PyErr_NewException("idn2.error", NULL, NULL)\<close>.\<close>

definition Idn2Error :: exc_class where
  "Idn2Error = NewException ''idn2.error''"

subsection \<open>UTF-8, as the argument parser and \<open>PyUnicode_FromString\<close> use it\<close>

definition NUL :: char where
  "NUL = CHR 0x00"

definition utf8_encode_cp :: "nat \<Rightarrow> string option" where
  "utf8_encode_cp cp =
     (if cp < 0x80 then Some [char_of cp]
      else if cp < 0x800 then Some [char_of (0xC0 + cp div 64), char_of (0x80 + cp mod 64)]
      else if cp < 0x10000 then
        (if 0xD800 \<le> cp \<and> cp < 0xE000 then None
         else Some [char_of (0xE0 + cp div 4096), char_of (0x80 + cp div 64 mod 64),
                    char_of (0x80 + cp mod 64)])
      else if cp < 0x110000 then
        Some [char_of (0xF0 + cp div 262144), char_of (0x80 + cp div 4096 mod 64),
              char_of (0x80 + cp div 64 mod 64), char_of (0x80 + cp mod 64)]
      else None)"

fun utf8_encode :: "nat list \<Rightarrow> string option" where
  "utf8_encode [] = Some []"
| "utf8_encode (cp # cps) =
     (case utf8_encode_cp cp of
        None \<Rightarrow> None
      | Some bs \<Rightarrow> (case utf8_encode cps of None \<Rightarrow> None | Some rest \<Rightarrow> Some (bs @ rest)))"

definition is_continuation :: "nat \<Rightarrow> bool" where
  "is_continuation b = (0x80 \<le> b \<and> b < 0xC0)"

fun utf8_decode_bytes :: "nat list \<Rightarrow> nat list option" where
  "utf8_decode_bytes [] = Some []"
| "utf8_decode_bytes (b0 # bs) =
     (if b0 < 0x80 then map_option ((#) b0) (utf8_decode_bytes bs)
      else if b0 < 0xC2 then None
      else if b0 < 0xE0 then
        (case bs of
           b1 # r \<Rightarrow>
             if is_continuation b1
             then map_option ((#) ((b0 - 0xC0) * 64 + (b1 - 0x80))) (utf8_decode_bytes r)
             else None
         | _ \<Rightarrow> None)
      else if b0 < 0xF0 then
        (case bs of
           b1 # b2 # r \<Rightarrow>
             (let cp = (b0 - 0xE0) * 4096 + (b1 - 0x80) * 64 + (b2 - 0x80)
              in if is_continuation b1 \<and> is_continuation b2 \<and> 0x800 \<le> cp \<and> \<not> (0xD800 \<le> cp \<and> cp < 0xE000)
                 then map_option ((#) cp) (utf8_decode_bytes r)
                 else None)
         | _ \<Rightarrow> None)
      else if b0 < 0xF5 then
        (case bs of
           b1 # b2 # b3 # r \<Rightarrow>
             (let cp = (b0 - 0xF0) * 262144 + (b1 - 0x80) * 4096 + (b2 - 0x80) * 64 + (b3 - 0x80)
              in if is_continuation b1 \<and> is_continuation b2 \<and> is_continuation b3 \<and> 0x10000 \<le> cp \<and> cp < 0x110000
                 then map_option ((#) cp) (utf8_decode_bytes r)
                 else None)
         | _ \<Rightarrow> None)
      else None)"

definition utf8_decode :: "string \<Rightarrow> nat list option" where
  "utf8_decode s = utf8_decode_bytes (map of_char s)"

subsection \<open>The interpreter and the way the module is built\<close>

text \<open>
  One point of the argument parser depends on the interpreter.  A format unit with
  \<open>#\<close> stores a length, and CPython 3.10 to 3.12 refuse such a unit with
  \<open>SystemError\<close> unless the extension has defined the macro \<open>PY_SSIZE_T_CLEAN\<close>
  before it includes \<open>Python.h\<close>; earlier and later versions take the unit either way.
  \<open>requires_PY_SSIZE_T_CLEAN py\<close> says that the interpreter \<open>py\<close> is one that refuses.
  The module includes \<open>Python.h\<close> without defining the macro.
\<close>

record cpython =
  requires_PY_SSIZE_T_CLEAN :: bool

definition PY_SSIZE_T_CLEAN :: bool where
  "PY_SSIZE_T_CLEAN = False"

subsection \<open>The CPython API functions the module calls\<close>

text \<open>
  \<open>PyArg_ParseTuple(args, "s", &ulabel)\<close>: exactly one argument, a \<open>str\<close>; it is
  encoded as UTF-8 and must not contain a null character.
\<close>

definition conv_s :: "pyobject \<Rightarrow> exc_class + string" where
  "conv_s obj =
     (case obj of
        PyUnicode u \<Rightarrow>
          (case utf8_encode u of
             None \<Rightarrow> Inl UnicodeEncodeError
           | Some s \<Rightarrow> if NUL \<in> set s then Inl ValueError else Inr s)
      | _ \<Rightarrow> Inl TypeError)"

definition PyArg_ParseTuple_s :: "pyobject list \<Rightarrow> exc_class + string" where
  "PyArg_ParseTuple_s args = (case args of [a] \<Rightarrow> conv_s a | _ \<Rightarrow> Inl TypeError)"

text \<open>
  \<open>PyArg_ParseTuple(args, "y", &alabel)\<close>: exactly one argument, a \<open>bytes\<close> object
  or another read-only bytes-like object, without a null byte; a \<open>str\<close> is not
  accepted.
\<close>

definition conv_y :: "pyobject \<Rightarrow> exc_class + string" where
  "conv_y obj =
     (case obj of
        PyBytes b \<Rightarrow> if NUL \<in> set b then Inl ValueError else Inr b
      | PyBuffer b \<Rightarrow> if NUL \<in> set b then Inl ValueError else Inr b
      | _ \<Rightarrow> Inl TypeError)"

definition PyArg_ParseTuple_y :: "pyobject list \<Rightarrow> exc_class + string" where
  "PyArg_ParseTuple_y args = (case args of [a] \<Rightarrow> conv_y a | _ \<Rightarrow> Inl TypeError)"

text \<open>
  \<open>PyArg_ParseTuple(args, "zz#", &ulabel, &alabel, &alen)\<close>: exactly two arguments.
  Unit \<open>z\<close> is \<open>s\<close> that also takes \<open>None\<close>, giving the NULL pointer.  Unit \<open>z#\<close>
  first checks that a \<open>#\<close> unit is allowed at all, and fails with \<open>SystemError\<close>
  whatever the argument is when the interpreter requires \<open>PY_SSIZE_T_CLEAN\<close> and the
  module has not defined it.  Otherwise it takes \<open>None\<close>, a \<open>str\<close>, a \<open>bytes\<close> object
  or another read-only bytes-like object and stores the buffer and its length; the
  buffer may hold null bytes.  The module never reads the length \<open>alen\<close>, so the
  model does not return it.  The units are converted from left to right, and the
  first failure ends the parse.
\<close>

definition conv_z :: "pyobject \<Rightarrow> exc_class + string option" where
  "conv_z obj =
     (case obj of
        PyNone \<Rightarrow> Inr None
      | _ \<Rightarrow> (case conv_s obj of Inl e \<Rightarrow> Inl e | Inr s \<Rightarrow> Inr (Some s)))"

definition conv_z_hash :: "cpython \<Rightarrow> pyobject \<Rightarrow> exc_class + string option" where
  "conv_z_hash py obj =
     (if requires_PY_SSIZE_T_CLEAN py \<and> \<not> PY_SSIZE_T_CLEAN then Inl SystemError
      else
        (case obj of
           PyNone \<Rightarrow> Inr None
         | PyUnicode u \<Rightarrow>
             (case utf8_encode u of None \<Rightarrow> Inl UnicodeEncodeError | Some s \<Rightarrow> Inr (Some s))
         | PyBytes b \<Rightarrow> Inr (Some b)
         | PyBuffer b \<Rightarrow> Inr (Some b)
         | PyOther \<Rightarrow> Inl TypeError))"

definition PyArg_ParseTuple_zz_hash ::
  "cpython \<Rightarrow> pyobject list \<Rightarrow> exc_class + (string option \<times> string option)" where
  "PyArg_ParseTuple_zz_hash py args =
     (case args of
        [a, b] \<Rightarrow>
          (case conv_z a of
             Inl e \<Rightarrow> Inl e
           | Inr ulabel \<Rightarrow>
               (case conv_z_hash py b of
                  Inl e \<Rightarrow> Inl e
                | Inr alabel \<Rightarrow> Inr (ulabel, alabel)))
      | _ \<Rightarrow> Inl TypeError)"

text \<open>
  A buffer read as a C string ends at its first null byte: this is what a callee sees
  of the buffer that unit \<open>z#\<close> delivered.
\<close>

definition c_str :: "string \<Rightarrow> string" where
  "c_str buf = takeWhile (\<lambda>c. c \<noteq> NUL) buf"

text \<open>\<open>Py_BuildValue("y", p)\<close>: a \<open>bytes\<close> object from a C string, \<open>None\<close> for NULL.\<close>

definition Py_BuildValue_y :: "string option \<Rightarrow> pyobject" where
  "Py_BuildValue_y p = (case p of None \<Rightarrow> PyNone | Some s \<Rightarrow> PyBytes s)"

text \<open>
  \<open>PyUnicode_FromString(u)\<close> for a non-NULL C string: the \<open>str\<close> decoded from UTF-8,
  or NULL with \<open>UnicodeDecodeError\<close> set.
\<close>

definition PyUnicode_FromString :: "string \<Rightarrow> pystate \<Rightarrow> pyobject option \<times> pystate" where
  "PyUnicode_FromString u st =
     (case utf8_decode u of
        None \<Rightarrow> (None, Some (ApiErr UnicodeDecodeError))
      | Some cps \<Rightarrow> (Some (PyUnicode cps), st))"

text \<open>\<open>%d\<close> of a C \<open>int\<close>, and \<open>PyUnicode_FromFormat\<close> for formats whose only
  conversion is \<open>%d\<close> of one argument.\<close>

fun dec_nat :: "nat \<Rightarrow> string" where
  "dec_nat n =
     (if n < 10 then [''0123456789'' ! n]
      else dec_nat (n div 10) @ [''0123456789'' ! (n mod 10)])"

declare dec_nat.simps [simp del]

definition dec_int :: "int \<Rightarrow> string" where
  "dec_int i = (if i < 0 then CHR ''-'' # dec_nat (nat (- i)) else dec_nat (nat i))"

fun PyUnicode_FromFormat :: "string \<Rightarrow> int \<Rightarrow> string" where
  "PyUnicode_FromFormat [] i = []"
| "PyUnicode_FromFormat [c] i = [c]"
| "PyUnicode_FromFormat (c # d # fmt) i =
     (if c = CHR ''%'' \<and> d = CHR ''d'' then dec_int i @ PyUnicode_FromFormat fmt i
      else c # PyUnicode_FromFormat (d # fmt) i)"

subsection \<open>The library interface: \<open>idn2.h\<close>\<close>

text \<open>
  The names of the return codes and flags that the module uses.  Their numeric values
  are fixed by the header, which is a parameter: \<open>rc_value h c\<close> is the value of the
  enumerator \<open>c\<close>, \<open>flag_value h f\<close> that of the flag \<open>f\<close>.
\<close>

datatype idn2_rc =
    IDN2_OK
  | IDN2_MALLOC
  | IDN2_NO_CODESET
  | IDN2_ICONV_FAIL
  | IDN2_ENCODING_ERROR
  | IDN2_NFC
  | IDN2_PUNYCODE_BAD_INPUT
  | IDN2_PUNYCODE_BIG_OUTPUT
  | IDN2_PUNYCODE_OVERFLOW
  | IDN2_TOO_BIG_DOMAIN
  | IDN2_TOO_BIG_LABEL
  | IDN2_INVALID_ALABEL
  | IDN2_UALABEL_MISMATCH
  | IDN2_INVALID_FLAGS
  | IDN2_NOT_NFC
  | IDN2_2HYPHEN
  | IDN2_HYPHEN_STARTEND
  | IDN2_LEADING_COMBINING
  | IDN2_DISALLOWED
  | IDN2_CONTEXTJ
  | IDN2_CONTEXTJ_NO_RULE
  | IDN2_CONTEXTO
  | IDN2_CONTEXTO_NO_RULE
  | IDN2_UNASSIGNED
  | IDN2_BIDI
  | IDN2_DOT_IN_LABEL
  | IDN2_INVALID_TRANSITIONAL
  | IDN2_INVALID_NONTRANSITIONAL

datatype idn2_flags = IDN2_NO_TR46 | IDN2_NFC_INPUT

record idn2_h =
  rc_value :: "idn2_rc \<Rightarrow> int"
  flag_value :: "idn2_flags \<Rightarrow> int"

text \<open>
  The four library functions.  Each takes its input C strings and the flags and gives
  the return code together with the pointer it left in the output parameter, which the
  caller has set to NULL before the call (\<open>None\<close>: still NULL).
  \<open>idn2_register_u8\<close> takes two input pointers, each of which may be NULL.
\<close>

record idn2_lib =
  idn2_to_ascii_8z :: "string \<Rightarrow> int \<Rightarrow> int \<times> string option"
  idn2_lookup_u8 :: "string \<Rightarrow> int \<Rightarrow> int \<times> string option"
  idn2_register_u8 :: "string option \<Rightarrow> string option \<Rightarrow> int \<Rightarrow> int \<times> string option"
  idn2_to_unicode_8z8z :: "string \<Rightarrow> int \<Rightarrow> int \<times> string option"

subsection \<open>\<open>setidn2errstr\<close>: from a return code to the exception\<close>

text \<open>The cases of the \<open>switch\<close>, in the order of the source.\<close>

definition errstr_table :: "(idn2_rc \<times> string) list" where
  "errstr_table =
    [(IDN2_MALLOC, ''Memory allocation error.''),
     (IDN2_NO_CODESET, ''Could not determine locale string encoding format.''),
     (IDN2_ICONV_FAIL, ''Could not transcode locale string to UTF-8.''),
     (IDN2_ENCODING_ERROR, ''Unicode data encoding error.''),
     (IDN2_NFC, ''Error normalizing string.''),
     (IDN2_PUNYCODE_BAD_INPUT, ''Punycode invalid input.''),
     (IDN2_PUNYCODE_BIG_OUTPUT, ''Punycode output buffer too small.''),
     (IDN2_PUNYCODE_OVERFLOW, ''Punycode conversion would overflow.''),
     (IDN2_TOO_BIG_DOMAIN, ''Domain name longer than 255 characters.''),
     (IDN2_TOO_BIG_LABEL, ''Domain label longer than 63 characters.''),
     (IDN2_INVALID_ALABEL, ''Input A-label is not valid.''),
     (IDN2_UALABEL_MISMATCH, ''Input A-label and U-label does not match.''),
     (IDN2_INVALID_FLAGS, ''Invalid combination of flags.''),
     (IDN2_NOT_NFC, ''String is not NFC.''),
     (IDN2_2HYPHEN, ''String has forbidden two hyphens.''),
     (IDN2_HYPHEN_STARTEND, ''String has forbidden starting/ending hyphen.''),
     (IDN2_LEADING_COMBINING, ''String has forbidden leading combining character.''),
     (IDN2_DISALLOWED, ''String has disallowed character.''),
     (IDN2_CONTEXTJ, ''String has forbidden context-j character.''),
     (IDN2_CONTEXTJ_NO_RULE, ''String has context-j character with no rull.''),
     (IDN2_CONTEXTO, ''String has forbidden context-o character.''),
     (IDN2_CONTEXTO_NO_RULE, ''String has context-o character with no rull.''),
     (IDN2_UNASSIGNED, ''String has forbidden unassigned character.''),
     (IDN2_BIDI, ''String has forbidden bi-directional properties.''),
     (IDN2_DOT_IN_LABEL, ''Label has forbidden dot.''),
     (IDN2_INVALID_TRANSITIONAL, ''Label has character forbidden in transitional mode.''),
     (IDN2_INVALID_NONTRANSITIONAL,
        ''Label has character forbidden in non-transitional mode).'')]"

text \<open>
  The \<open>switch\<close> takes the case whose label equals \<open>rc\<close> and sets \<open>idn2.error\<close> with
  its string; the \<open>default\<close> branch formats the number.
\<close>

definition setidn2errstr :: "idn2_h \<Rightarrow> int \<Rightarrow> pystate \<Rightarrow> pystate" where
  "setidn2errstr h rc st =
     (case find (\<lambda>(c, errstr). rc = rc_value h c) errstr_table of
        Some (c, errstr) \<Rightarrow> PyErr_SetString Idn2Error errstr st
      | None \<Rightarrow> PyErr_SetObject Idn2Error (PyUnicode_FromFormat ''idn2 error %d'' rc) st)"

subsection \<open>The four module functions\<close>

text \<open>
  Each takes the argument tuple and the error indicator, and gives the returned
  pointer (\<open>None\<close> for NULL) and the error indicator after the call.  \<open>register\<close>
  is the one function whose format has a \<open>#\<close> unit, so it also takes the interpreter.
\<close>

definition idn2_utoa ::
  "idn2_h \<Rightarrow> idn2_lib \<Rightarrow> pyobject list \<Rightarrow> pystate \<Rightarrow> pyobject option \<times> pystate" where
  "idn2_utoa h lib args st =
     (case PyArg_ParseTuple_s args of
        Inl e \<Rightarrow> (None, Some (ApiErr e))
      | Inr ulabel \<Rightarrow>
          (case idn2_to_ascii_8z lib ulabel (flag_value h IDN2_NO_TR46) of
             (rc, alabel) \<Rightarrow>
               if rc = rc_value h IDN2_OK then (Some (Py_BuildValue_y alabel), st)
               else (None, setidn2errstr h rc st)))"

definition idn2_lookup ::
  "idn2_h \<Rightarrow> idn2_lib \<Rightarrow> pyobject list \<Rightarrow> pystate \<Rightarrow> pyobject option \<times> pystate" where
  "idn2_lookup h lib args st =
     (case PyArg_ParseTuple_s args of
        Inl e \<Rightarrow> (None, Some (ApiErr e))
      | Inr ulabel \<Rightarrow>
          (case idn2_lookup_u8 lib ulabel (flag_value h IDN2_NFC_INPUT) of
             (rc, alabel) \<Rightarrow>
               if rc = rc_value h IDN2_OK then (Some (Py_BuildValue_y alabel), st)
               else (None, setidn2errstr h rc st)))"

definition idn2_register ::
  "cpython \<Rightarrow> idn2_h \<Rightarrow> idn2_lib \<Rightarrow> pyobject list \<Rightarrow> pystate
     \<Rightarrow> pyobject option \<times> pystate" where
  "idn2_register py h lib args st =
     (case PyArg_ParseTuple_zz_hash py args of
        Inl e \<Rightarrow> (None, Some (ApiErr e))
      | Inr (ulabel, alabel) \<Rightarrow>
          if ulabel = None \<and> alabel = None
          then (None, PyErr_SetString Idn2Error ''Both arguments null.'' st)
          else
            (case idn2_register_u8 lib ulabel (map_option c_str alabel)
                    (flag_value h IDN2_NFC_INPUT) of
               (rc, rlabel) \<Rightarrow>
                 if rc = rc_value h IDN2_OK then (Some (Py_BuildValue_y rlabel), st)
                 else (None, setidn2errstr h rc st)))"

text \<open>
  \<open>atou\<close> hands the output pointer to \<open>PyUnicode_FromString\<close>, which reads the string
  at once: when the library has returned \<open>IDN2_OK\<close> and left the pointer NULL, the
  behaviour is undefined, and the model gives \<open>None\<close> for the whole call.
\<close>

definition idn2_atou ::
  "idn2_h \<Rightarrow> idn2_lib \<Rightarrow> pyobject list \<Rightarrow> pystate \<Rightarrow> (pyobject option \<times> pystate) option" where
  "idn2_atou h lib args st =
     (case PyArg_ParseTuple_y args of
        Inl e \<Rightarrow> Some (None, Some (ApiErr e))
      | Inr alabel \<Rightarrow>
          (case idn2_to_unicode_8z8z lib alabel 0 of
             (rc, ulabel) \<Rightarrow>
               if rc = rc_value h IDN2_OK
               then (case ulabel of None \<Rightarrow> None | Some u \<Rightarrow> Some (PyUnicode_FromString u st))
               else Some (None, setidn2errstr h rc st)))"

subsection \<open>What the module expects of the library\<close>


subsection \<open>An instance for evaluation\<close>

text \<open>
  To run the module functions on concrete arguments the parameters need values.
  \<open>cpython_3_11\<close> is an interpreter that requires \<open>PY_SSIZE_T_CLEAN\<close> for \<open>#\<close> units,
  \<open>cpython_3_13\<close> one that does not.  \<open>sample_h\<close> gives the enumerators and flags the values published in GNU libidn2's
  \<open>idn2.h\<close>.  \<open>sample_lib\<close> is a stand-in for the library that knows ASCII names
  only: it answers \<open>IDN2_OK\<close> with a copy of an all-ASCII input, and for any other
  input the value of \<open>IDN2_DISALLOWED\<close>, leaving the ASCII prefix of the input in the
  output parameter.  Its \<open>idn2_register_u8\<close> answers the value of
  \<open>IDN2_UALABEL_MISMATCH\<close> when both inputs are given and differ.
\<close>

definition cpython_3_11 :: cpython where
  "cpython_3_11 = \<lparr> requires_PY_SSIZE_T_CLEAN = True \<rparr>"

definition cpython_3_13 :: cpython where
  "cpython_3_13 = \<lparr> requires_PY_SSIZE_T_CLEAN = False \<rparr>"

definition sample_h :: idn2_h where
  "sample_h =
     \<lparr> rc_value = (\<lambda>c. case c of
          IDN2_OK \<Rightarrow> 0
        | IDN2_MALLOC \<Rightarrow> - 100
        | IDN2_NO_CODESET \<Rightarrow> - 101
        | IDN2_ICONV_FAIL \<Rightarrow> - 102
        | IDN2_ENCODING_ERROR \<Rightarrow> - 200
        | IDN2_NFC \<Rightarrow> - 201
        | IDN2_PUNYCODE_BAD_INPUT \<Rightarrow> - 202
        | IDN2_PUNYCODE_BIG_OUTPUT \<Rightarrow> - 203
        | IDN2_PUNYCODE_OVERFLOW \<Rightarrow> - 204
        | IDN2_TOO_BIG_DOMAIN \<Rightarrow> - 205
        | IDN2_TOO_BIG_LABEL \<Rightarrow> - 206
        | IDN2_INVALID_ALABEL \<Rightarrow> - 207
        | IDN2_UALABEL_MISMATCH \<Rightarrow> - 208
        | IDN2_INVALID_FLAGS \<Rightarrow> - 209
        | IDN2_NOT_NFC \<Rightarrow> - 300
        | IDN2_2HYPHEN \<Rightarrow> - 301
        | IDN2_HYPHEN_STARTEND \<Rightarrow> - 302
        | IDN2_LEADING_COMBINING \<Rightarrow> - 303
        | IDN2_DISALLOWED \<Rightarrow> - 304
        | IDN2_CONTEXTJ \<Rightarrow> - 305
        | IDN2_CONTEXTJ_NO_RULE \<Rightarrow> - 306
        | IDN2_CONTEXTO \<Rightarrow> - 307
        | IDN2_CONTEXTO_NO_RULE \<Rightarrow> - 308
        | IDN2_UNASSIGNED \<Rightarrow> - 309
        | IDN2_BIDI \<Rightarrow> - 310
        | IDN2_DOT_IN_LABEL \<Rightarrow> - 311
        | IDN2_INVALID_TRANSITIONAL \<Rightarrow> - 312
        | IDN2_INVALID_NONTRANSITIONAL \<Rightarrow> - 313),
       flag_value = (\<lambda>f. case f of IDN2_NO_TR46 \<Rightarrow> 64 | IDN2_NFC_INPUT \<Rightarrow> 1) \<rparr>"

definition is_ascii :: "char \<Rightarrow> bool" where
  "is_ascii c = ((of_char c :: nat) < 0x80)"

definition ascii_conv :: "string \<Rightarrow> int \<times> string option" where
  "ascii_conv s =
     (if list_all is_ascii s then (0, Some s) else (- 304, Some (takeWhile is_ascii s)))"

definition sample_lib :: idn2_lib where
  "sample_lib =
     \<lparr> idn2_to_ascii_8z = (\<lambda>s f. ascii_conv s),
       idn2_lookup_u8 = (\<lambda>s f. ascii_conv s),
       idn2_register_u8 = (\<lambda>u a f.
          case (u, a) of
            (None, None) \<Rightarrow> (0, None)
          | (Some u', None) \<Rightarrow> ascii_conv u'
          | (None, Some a') \<Rightarrow> ascii_conv a'
          | (Some u', Some a') \<Rightarrow> if u' = a' then ascii_conv u' else (- 208, None)),
       idn2_to_unicode_8z8z = (\<lambda>s f. ascii_conv s) \<rparr>"

section \<open>Properties\<close>

subsection \<open>The UTF-8 decoder inverts the encoder\<close>

text \<open>
  A check of the codec above: whatever the encoder produces, the decoder reads back
  as the same code points.
\<close>

lemma sextets2: "(n::nat) div 64 * 64 + n mod 64 = n"
  by simp

lemma sextets3: "(n::nat) div 4096 * 4096 + n div 64 mod 64 * 64 + n mod 64 = n"
proof -
  have d: "n div 4096 = n div 64 div 64" by (simp add: div_mult2_eq [symmetric])
  have g: "q * 4096 + r * 64 = (q * 64 + r) * 64" for q r :: nat by simp
  have "n div 64 div 64 * 4096 + n div 64 mod 64 * 64
      = (n div 64 div 64 * 64 + n div 64 mod 64) * 64"
    by (rule g)
  also have "\<dots> = n div 64 * 64" by simp
  finally show ?thesis using d by simp
qed

lemma sextets4:
  "(n::nat) div 262144 * 262144 + n div 4096 mod 64 * 4096 + n div 64 mod 64 * 64 + n mod 64 = n"
proof -
  have d: "n div 262144 = n div 4096 div 64" by (simp add: div_mult2_eq [symmetric])
  have g: "q * 262144 + r * 4096 = (q * 64 + r) * 4096" for q r :: nat by simp
  have "n div 4096 div 64 * 262144 + n div 4096 mod 64 * 4096
      = (n div 4096 div 64 * 64 + n div 4096 mod 64) * 4096"
    by (rule g)
  also have "\<dots> = n div 4096 * 4096" by simp
  finally show ?thesis using d sextets3 [of n] by simp
qed

lemma utf8_decode_bytes_1: "b0 < 0x80 \<Longrightarrow>
    utf8_decode_bytes (b0 # r) = map_option ((#) b0) (utf8_decode_bytes r)"
  by simp

lemma utf8_decode_bytes_2: "0xC2 \<le> b0 \<Longrightarrow> b0 < 0xE0 \<Longrightarrow> is_continuation b1 \<Longrightarrow>
    utf8_decode_bytes (b0 # b1 # r)
      = map_option ((#) ((b0 - 0xC0) * 64 + (b1 - 0x80))) (utf8_decode_bytes r)"
  by simp

lemma utf8_decode_bytes_3: "0xE0 \<le> b0 \<Longrightarrow> b0 < 0xF0 \<Longrightarrow> is_continuation b1 \<Longrightarrow> is_continuation b2 \<Longrightarrow>
    cp = (b0 - 0xE0) * 4096 + (b1 - 0x80) * 64 + (b2 - 0x80) \<Longrightarrow>
    0x800 \<le> cp \<Longrightarrow> \<not> (0xD800 \<le> cp \<and> cp < 0xE000) \<Longrightarrow>
    utf8_decode_bytes (b0 # b1 # b2 # r) = map_option ((#) cp) (utf8_decode_bytes r)"
  by (simp add: Let_def)

lemma utf8_decode_bytes_4: "0xF0 \<le> b0 \<Longrightarrow> b0 < 0xF5 \<Longrightarrow>
    is_continuation b1 \<Longrightarrow> is_continuation b2 \<Longrightarrow> is_continuation b3 \<Longrightarrow>
    cp = (b0 - 0xF0) * 262144 + (b1 - 0x80) * 4096 + (b2 - 0x80) * 64 + (b3 - 0x80) \<Longrightarrow>
    0x10000 \<le> cp \<Longrightarrow> cp < 0x110000 \<Longrightarrow>
    utf8_decode_bytes (b0 # b1 # b2 # b3 # r) = map_option ((#) cp) (utf8_decode_bytes r)"
  by (simp add: Let_def)

lemma of_char_char_of_small: "n < 256 \<Longrightarrow> of_char (char_of (n::nat)) = n"
  by simp

lemma utf8_decode_encode_cp:
  assumes "utf8_encode_cp cp = Some bs"
  shows "utf8_decode_bytes (map of_char bs @ rest) = map_option ((#) cp) (utf8_decode_bytes rest)"
proof -
  consider (a) "cp < 0x80"
    | (b) "0x80 \<le> cp" "cp < 0x800"
    | (c) "0x800 \<le> cp" "cp < 0x10000" "\<not> (0xD800 \<le> cp \<and> cp < 0xE000)"
    | (d) "0x10000 \<le> cp" "cp < 0x110000"
    using assms by (auto simp: utf8_encode_cp_def split: if_splits)
  then show ?thesis
  proof cases
    case a
    with assms have "bs = [char_of cp]" by (simp add: utf8_encode_cp_def)
    with a show ?thesis by simp
  next
    case b
    with assms have bs: "bs = [char_of (0xC0 + cp div 64), char_of (0x80 + cp mod 64)]"
      by (simp add: utf8_encode_cp_def)
    from b have r: "0xC0 + cp div 64 < 256" "0xC2 \<le> 0xC0 + cp div 64" "0xC0 + cp div 64 < 0xE0"
      by arith+
    have r1: "0x80 + cp mod 64 < 256" "is_continuation (0x80 + cp mod 64)"
      unfolding is_continuation_def by arith+
    have m: "map of_char bs @ rest = (0xC0 + cp div 64) # (0x80 + cp mod 64) # rest"
      unfolding bs using r(1) r1(1) by (simp only: list.map of_char_char_of_small append.simps)
    show ?thesis
      unfolding m using utf8_decode_bytes_2 [OF r(2) r(3) r1(2), of rest] sextets2 [of cp] by simp
  next
    case c
    with assms have bs: "bs = [char_of (0xE0 + cp div 4096), char_of (0x80 + cp div 64 mod 64),
                    char_of (0x80 + cp mod 64)]"
      by (simp add: utf8_encode_cp_def)
    from c have r: "0xE0 + cp div 4096 < 256" "0xE0 \<le> 0xE0 + cp div 4096"
      "0xE0 + cp div 4096 < 0xF0"
      by arith+
    have r1: "0x80 + cp div 64 mod 64 < 256" "is_continuation (0x80 + cp div 64 mod 64)"
      "0x80 + cp mod 64 < 256" "is_continuation (0x80 + cp mod 64)"
      unfolding is_continuation_def by arith+
    have m: "map of_char bs @ rest
        = (0xE0 + cp div 4096) # (0x80 + cp div 64 mod 64) # (0x80 + cp mod 64) # rest"
      unfolding bs using r(1) r1(1) r1(3)
      by (simp only: list.map of_char_char_of_small append.simps)
    have v: "cp = (0xE0 + cp div 4096 - 0xE0) * 4096 + (0x80 + cp div 64 mod 64 - 0x80) * 64
        + (0x80 + cp mod 64 - 0x80)"
      using sextets3 [of cp] by simp
    show ?thesis
      unfolding m by (rule utf8_decode_bytes_3 [OF r(2) r(3) r1(2) r1(4) v c(1) c(3)])
  next
    case d
    with assms have bs: "bs = [char_of (0xF0 + cp div 262144), char_of (0x80 + cp div 4096 mod 64),
              char_of (0x80 + cp div 64 mod 64), char_of (0x80 + cp mod 64)]"
      by (simp add: utf8_encode_cp_def)
    from d have r: "0xF0 + cp div 262144 < 256" "0xF0 \<le> 0xF0 + cp div 262144"
      "0xF0 + cp div 262144 < 0xF5"
      by arith+
    have r1: "0x80 + cp div 4096 mod 64 < 256" "is_continuation (0x80 + cp div 4096 mod 64)"
      "0x80 + cp div 64 mod 64 < 256" "is_continuation (0x80 + cp div 64 mod 64)"
      "0x80 + cp mod 64 < 256" "is_continuation (0x80 + cp mod 64)"
      unfolding is_continuation_def by arith+
    have m: "map of_char bs @ rest
        = (0xF0 + cp div 262144) # (0x80 + cp div 4096 mod 64) # (0x80 + cp div 64 mod 64)
          # (0x80 + cp mod 64) # rest"
      unfolding bs using r(1) r1(1) r1(3) r1(5)
      by (simp only: list.map of_char_char_of_small append.simps)
    have v: "cp = (0xF0 + cp div 262144 - 0xF0) * 262144 + (0x80 + cp div 4096 mod 64 - 0x80) * 4096
        + (0x80 + cp div 64 mod 64 - 0x80) * 64 + (0x80 + cp mod 64 - 0x80)"
      using sextets4 [of cp] by simp
    show ?thesis
      unfolding m by (rule utf8_decode_bytes_4 [OF r(2) r(3) r1(2) r1(4) r1(6) v d(1) d(2)])
  qed
qed

lemma utf8_decode_encode: "utf8_encode u = Some s \<Longrightarrow> utf8_decode s = Some u"
proof (induction u arbitrary: s)
  case Nil
  then show ?case by (simp add: utf8_decode_def)
next
  case (Cons cp u)
  then obtain bs rest where e: "utf8_encode_cp cp = Some bs" "utf8_encode u = Some rest"
    "s = bs @ rest"
    by (auto split: option.splits)
  with Cons.IH have "utf8_decode rest = Some u" by simp
  with e utf8_decode_encode_cp [OF e(1), of "map of_char rest"] show ?case
    by (simp add: utf8_decode_def)
qed

subsection \<open>The table of \<open>setidn2errstr\<close>\<close>

lemma errstr_table_distinct: "distinct (map fst errstr_table)"
  by (simp add: errstr_table_def)

lemma errstr_table_not_both_null:
  "(c, m) \<in> set errstr_table \<Longrightarrow> m \<noteq> ''Both arguments null.''"
  by (auto simp: errstr_table_def)

lemma find_table_Some:
  "find (\<lambda>(c, m). rc = f c) tab = Some (c, m) \<Longrightarrow> (c, m) \<in> set tab \<and> rc = f c"
  by (induction tab) (auto split: if_splits)

lemma find_table_hit:
  "distinct (map (f \<circ> fst) tab) \<Longrightarrow> (c, m) \<in> set tab \<Longrightarrow>
   find (\<lambda>(c', m'). f c = f c') tab = Some (c, m)"
  by (induction tab) (auto simp: image_iff)

lemma find_table_miss:
  "rc \<notin> (f \<circ> fst) ` set tab \<Longrightarrow> find (\<lambda>(c, m). rc = f c) tab = None"
  by (induction tab) auto

lemma FromFormat_idn2_error: "PyUnicode_FromFormat ''idn2 error %d'' rc = ''idn2 error '' @ dec_int rc"
  by simp

lemma setidn2errstr_hit:
  assumes "distinct (map (rc_value h \<circ> fst) errstr_table)" "(c, m) \<in> set errstr_table"
  shows "setidn2errstr h (rc_value h c) st = Some (Err Idn2Error m)"
  using find_table_hit [OF assms]
  by (simp add: setidn2errstr_def PyErr_SetString_def)

lemma setidn2errstr_miss:
  assumes "rc \<notin> (rc_value h \<circ> fst) ` set errstr_table"
  shows "setidn2errstr h rc st = Some (Err Idn2Error (''idn2 error '' @ dec_int rc))"
  using find_table_miss [OF assms]
  by (simp add: setidn2errstr_def PyErr_SetObject_def del: PyUnicode_FromFormat.simps add: FromFormat_idn2_error)

lemma setidn2errstr_cases:
  "(\<exists>c m. (c, m) \<in> set errstr_table \<and> rc = rc_value h c \<and> setidn2errstr h rc st = Some (Err Idn2Error m))
   \<or> setidn2errstr h rc st = Some (Err Idn2Error (''idn2 error '' @ dec_int rc))"
proof (cases "find (\<lambda>(c, errstr). rc = rc_value h c) errstr_table")
  case None
  then show ?thesis
    by (simp add: setidn2errstr_def PyErr_SetObject_def)
next
  case (Some p)
  obtain c m where p: "p = (c, m)" by (cases p)
  from Some p have "(c, m) \<in> set errstr_table \<and> rc = rc_value h c"
    using find_table_Some [of rc "rc_value h" errstr_table c m] by simp
  with Some p show ?thesis
    by (auto simp: setidn2errstr_def PyErr_SetString_def)
qed

lemma setidn2errstr_not_both_null:
  "setidn2errstr h rc st \<noteq> Some (Err Idn2Error ''Both arguments null.'')"
  using setidn2errstr_cases [of rc h st] errstr_table_not_both_null
  by auto


subsection \<open>The parser of \<open>register\<close>\<close>

lemma conv_z_None: "conv_z obj = Inr None \<longleftrightarrow> obj = PyNone"
  by (cases obj) (auto simp: conv_z_def conv_s_def split: option.splits sum.splits)

lemma conv_z_hash_refused:
  "requires_PY_SSIZE_T_CLEAN py \<Longrightarrow> conv_z_hash py obj = Inl SystemError"
  by (simp add: conv_z_hash_def PY_SSIZE_T_CLEAN_def)

lemma conv_z_hash_None:
  "conv_z_hash py obj = Inr None \<longleftrightarrow> \<not> requires_PY_SSIZE_T_CLEAN py \<and> obj = PyNone"
  by (cases obj) (auto simp: conv_z_hash_def PY_SSIZE_T_CLEAN_def split: option.splits)

lemma parse_zz_hash_both_null:
  "PyArg_ParseTuple_zz_hash py args = Inr (None, None)
     \<longleftrightarrow> \<not> requires_PY_SSIZE_T_CLEAN py \<and> args = [PyNone, PyNone]"
proof
  assume "\<not> requires_PY_SSIZE_T_CLEAN py \<and> args = [PyNone, PyNone]"
  then show "PyArg_ParseTuple_zz_hash py args = Inr (None, None)"
    by (simp add: PyArg_ParseTuple_zz_hash_def conv_z_def conv_z_hash_def)
next
  assume p: "PyArg_ParseTuple_zz_hash py args = Inr (None, None)"
  then obtain a b where ab: "args = [a, b]"
    by (auto simp: PyArg_ParseTuple_zz_hash_def split: list.splits)
  with p have "conv_z a = Inr None" "conv_z_hash py b = Inr None"
    by (auto simp: PyArg_ParseTuple_zz_hash_def split: sum.splits)
  with ab show "\<not> requires_PY_SSIZE_T_CLEAN py \<and> args = [PyNone, PyNone]"
    by (simp add: conv_z_None conv_z_hash_None)
qed

lemma parse_zz_hash_refused:
  assumes "requires_PY_SSIZE_T_CLEAN py"
  shows "\<exists>e. PyArg_ParseTuple_zz_hash py args = Inl e"
  using conv_z_hash_refused [OF assms]
  by (auto simp: PyArg_ParseTuple_zz_hash_def split: list.splits sum.splits)

subsection \<open>Evaluation at concrete arguments\<close>

lemma char_of_odd:
  "char_of (n::nat) = Char (odd n) (odd (n div 2)) (odd (n div 4)) (odd (n div 8))
     (odd (n div 16)) (odd (n div 32)) (odd (n div 64)) (odd (n div 128))"
  by (simp add: char_of_def bit_iff_odd)

lemmas eval_simps =
  idn2_utoa_def idn2_lookup_def idn2_register_def idn2_atou_def
  PyArg_ParseTuple_s_def PyArg_ParseTuple_y_def PyArg_ParseTuple_zz_hash_def
  conv_s_def conv_y_def conv_z_def conv_z_hash_def c_str_def
  utf8_encode_cp_def utf8_decode_def is_continuation_def char_of_odd NUL_def
  Py_BuildValue_y_def PyUnicode_FromString_def PY_SSIZE_T_CLEAN_def
  cpython_3_11_def cpython_3_13_def
  sample_lib_def ascii_conv_def is_ascii_def sample_h_def

subsection \<open>\<open>register\<close> with both arguments \<open>None\<close>\<close>

text \<open>
  On an interpreter that takes the \<open>#\<close> unit, \<open>register(None, None)\<close> reaches the
  test for two NULL pointers and raises \<open>idn2.error\<close> with \<open>Both arguments null.\<close>;
  the result is the same for every library.  From a clear error indicator this
  error is pending after a call only on such an interpreter and only for these
  arguments.
\<close>

lemma idn2_register_both_null_taken:
  assumes "\<not> requires_PY_SSIZE_T_CLEAN py"
  shows "idn2_register py h lib [PyNone, PyNone] st
    = (None, Some (Err Idn2Error ''Both arguments null.''))"
proof -
  from assms have "PyArg_ParseTuple_zz_hash py [PyNone, PyNone] = Inr (None, None)"
    by (simp add: parse_zz_hash_both_null)
  then show ?thesis
    by (simp add: idn2_register_def PyErr_SetString_def)
qed

lemma idn2_register_both_null_only:
  "snd (idn2_register py h lib args None) = Some (Err Idn2Error ''Both arguments null.'')
     \<longleftrightarrow> \<not> requires_PY_SSIZE_T_CLEAN py \<and> args = [PyNone, PyNone]"
proof
  assume "\<not> requires_PY_SSIZE_T_CLEAN py \<and> args = [PyNone, PyNone]"
  then show "snd (idn2_register py h lib args None)
      = Some (Err Idn2Error ''Both arguments null.'')"
    by (simp add: idn2_register_both_null_taken)
next
  assume e: "snd (idn2_register py h lib args None)
      = Some (Err Idn2Error ''Both arguments null.'')"
  show "\<not> requires_PY_SSIZE_T_CLEAN py \<and> args = [PyNone, PyNone]"
  proof (cases "PyArg_ParseTuple_zz_hash py args")
    case (Inl x)
    with e show ?thesis by (simp add: idn2_register_def)
  next
    case (Inr p)
    obtain u a where p: "p = (u, a)" by (cases p)
    show ?thesis
    proof (cases "u = None \<and> a = None")
      case True
      with Inr p show ?thesis by (simp add: parse_zz_hash_both_null)
    next
      case False
      with e Inr p setidn2errstr_not_both_null show ?thesis
        by (auto simp: idn2_register_def split: prod.splits if_splits)
    qed
  qed
qed

text \<open>
  On an interpreter that requires \<open>PY_SSIZE_T_CLEAN\<close> the parse of \<open>register\<close> fails
  for every argument tuple, so the function always returns NULL with the parser's
  exception and never reaches its own test or the library.
\<close>

lemma idn2_register_refused:
  assumes "requires_PY_SSIZE_T_CLEAN py"
  shows "\<exists>e. idn2_register py h lib args st = (None, Some (ApiErr e))"
  using parse_zz_hash_refused [OF assms, of args]
  by (auto simp: idn2_register_def)

text \<open>
  Claim C4.  The claim asks that \<open>register\<close> with neither argument present fails with
  \<open>idn2.error\<close>, \<open>Both arguments null.\<close>  The module is built without
  \<open>PY_SSIZE_T_CLEAN\<close>, and on CPython 3.10 to 3.12 the call \<open>register(None, None)\<close>
  ends in the argument parser: it returns NULL with \<open>SystemError\<close> pending, and the
  test for two NULL pointers is not reached.
\<close>

theorem idn2_register_both_null_SystemError:
  "idn2_register cpython_3_11 sample_h sample_lib [PyNone, PyNone] None
     = (None, Some (ApiErr SystemError))"
  by (simp add: idn2_register_def PyArg_ParseTuple_zz_hash_def conv_z_def conv_z_hash_def
      PY_SSIZE_T_CLEAN_def cpython_3_11_def)

subsection \<open>Error codes become \<open>idn2.error\<close> with the message of the table\<close>

text \<open>
  Claim C8.  The header gives the enumerators named in the \<open>switch\<close> pairwise distinct
  values (C does not accept a \<open>switch\<close> with two equal case labels).  Then
  \<open>setidn2errstr\<close> sets \<open>idn2.error\<close> with the string of the table for the value of each
  enumerator of the table, and with \<open>idn2 error\<close> followed by the number in decimal for
  every other number.  In each of the four functions, when the arguments have been
  parsed and the library returns a code other than \<open>IDN2_OK\<close>, the function returns
  NULL and the error indicator is the one \<open>setidn2errstr\<close> sets for that code.
\<close>

theorem idn2_error_message:
  assumes "distinct (map (rc_value h \<circ> fst) errstr_table)"
  shows
    "(\<forall>c m. (c, m) \<in> set errstr_table \<longrightarrow>
        setidn2errstr h (rc_value h c) st = Some (Err Idn2Error m))
     \<and> (\<forall>rc. rc \<notin> (rc_value h \<circ> fst) ` set errstr_table \<longrightarrow>
        setidn2errstr h rc st = Some (Err Idn2Error (''idn2 error '' @ dec_int rc)))
     \<and> (\<forall>ulabel rc out.
          PyArg_ParseTuple_s args = Inr ulabel \<longrightarrow>
          idn2_to_ascii_8z lib ulabel (flag_value h IDN2_NO_TR46) = (rc, out) \<longrightarrow>
          rc \<noteq> rc_value h IDN2_OK \<longrightarrow>
          idn2_utoa h lib args st = (None, setidn2errstr h rc st))
     \<and> (\<forall>ulabel rc out.
          PyArg_ParseTuple_s args = Inr ulabel \<longrightarrow>
          idn2_lookup_u8 lib ulabel (flag_value h IDN2_NFC_INPUT) = (rc, out) \<longrightarrow>
          rc \<noteq> rc_value h IDN2_OK \<longrightarrow>
          idn2_lookup h lib args st = (None, setidn2errstr h rc st))
     \<and> (\<forall>ulabel alabel rc out.
          PyArg_ParseTuple_zz_hash py args = Inr (ulabel, alabel) \<longrightarrow>
          (ulabel \<noteq> None \<or> alabel \<noteq> None) \<longrightarrow>
          idn2_register_u8 lib ulabel (map_option c_str alabel) (flag_value h IDN2_NFC_INPUT)
            = (rc, out) \<longrightarrow>
          rc \<noteq> rc_value h IDN2_OK \<longrightarrow>
          idn2_register py h lib args st = (None, setidn2errstr h rc st))
     \<and> (\<forall>alabel rc out.
          PyArg_ParseTuple_y args = Inr alabel \<longrightarrow>
          idn2_to_unicode_8z8z lib alabel 0 = (rc, out) \<longrightarrow>
          rc \<noteq> rc_value h IDN2_OK \<longrightarrow>
          idn2_atou h lib args st = Some (None, setidn2errstr h rc st))"
proof (intro conjI allI impI)
  show "setidn2errstr h (rc_value h c) st = Some (Err Idn2Error m)"
    if "(c, m) \<in> set errstr_table" for c m
    using assms that by (rule setidn2errstr_hit)
  show "setidn2errstr h rc st = Some (Err Idn2Error (''idn2 error '' @ dec_int rc))"
    if "rc \<notin> (rc_value h \<circ> fst) ` set errstr_table" for rc
    using that by (rule setidn2errstr_miss)
  show "idn2_utoa h lib args st = (None, setidn2errstr h rc st)"
    if "PyArg_ParseTuple_s args = Inr ulabel"
      "idn2_to_ascii_8z lib ulabel (flag_value h IDN2_NO_TR46) = (rc, out)"
      "rc \<noteq> rc_value h IDN2_OK" for ulabel rc out
    using that by (simp add: idn2_utoa_def)
  show "idn2_lookup h lib args st = (None, setidn2errstr h rc st)"
    if "PyArg_ParseTuple_s args = Inr ulabel"
      "idn2_lookup_u8 lib ulabel (flag_value h IDN2_NFC_INPUT) = (rc, out)"
      "rc \<noteq> rc_value h IDN2_OK" for ulabel rc out
    using that by (simp add: idn2_lookup_def)
  show "idn2_register py h lib args st = (None, setidn2errstr h rc st)"
    if "PyArg_ParseTuple_zz_hash py args = Inr (ulabel, alabel)"
      "ulabel \<noteq> None \<or> alabel \<noteq> None"
      "idn2_register_u8 lib ulabel (map_option c_str alabel) (flag_value h IDN2_NFC_INPUT)
         = (rc, out)"
      "rc \<noteq> rc_value h IDN2_OK" for ulabel alabel rc out
    using that by (auto simp: idn2_register_def)
  show "idn2_atou h lib args st = Some (None, setidn2errstr h rc st)"
    if "PyArg_ParseTuple_y args = Inr alabel"
      "idn2_to_unicode_8z8z lib alabel 0 = (rc, out)"
      "rc \<noteq> rc_value h IDN2_OK" for alabel rc out
    using that by (simp add: idn2_atou_def)
qed

theorem idn2_error_message_witness:
  "distinct (map (rc_value sample_h \<circ> fst) errstr_table)
   \<and> setidn2errstr sample_h (- 206) None
       = Some (Err Idn2Error ''Domain label longer than 63 characters.'')
   \<and> setidn2errstr sample_h (- 314) None = Some (Err Idn2Error ''idn2 error -314'')
   \<and> idn2_utoa sample_h sample_lib [PyUnicode [0x63, 0x61, 0x66, 0xE9]] None
       = (None, Some (Err Idn2Error ''String has disallowed character.''))"
proof -
  have d: "distinct (map (rc_value sample_h \<circ> fst) errstr_table)"
    by (simp add: sample_h_def errstr_table_def)
  note t = idn2_error_message [OF d, where st = None
      and args = "[PyUnicode [0x63, 0x61, 0x66, 0xE9]]" and lib = sample_lib]
  have big: "rc_value sample_h IDN2_TOO_BIG_LABEL = - 206"
    and dis: "rc_value sample_h IDN2_DISALLOWED = - 304"
    by (simp_all add: sample_h_def)
  have "(IDN2_TOO_BIG_LABEL, ''Domain label longer than 63 characters.'') \<in> set errstr_table"
    and dis_in: "(IDN2_DISALLOWED, ''String has disallowed character.'') \<in> set errstr_table"
    by (simp_all add: errstr_table_def)
  with t big dis have 1: "setidn2errstr sample_h (- 206) None
       = Some (Err Idn2Error ''Domain label longer than 63 characters.'')"
    and 3: "setidn2errstr sample_h (- 304) None
       = Some (Err Idn2Error ''String has disallowed character.'')"
    by metis+
  have "(- 314) \<notin> (rc_value sample_h \<circ> fst) ` set errstr_table"
    by (simp add: sample_h_def errstr_table_def)
  with t have "setidn2errstr sample_h (- 314) None
      = Some (Err Idn2Error (''idn2 error '' @ dec_int (- 314)))"
    by blast
  then have 2: "setidn2errstr sample_h (- 314) None = Some (Err Idn2Error ''idn2 error -314'')"
    by (simp add: dec_int_def dec_nat.simps)
  have p: "PyArg_ParseTuple_s [PyUnicode [0x63, 0x61, 0x66, 0xE9]]
      = Inr [CHR ''c'', CHR ''a'', CHR ''f'', CHR 0xC3, CHR 0xA9]"
    by (simp add: eval_simps)
  have e: "idn2_to_ascii_8z sample_lib [CHR ''c'', CHR ''a'', CHR ''f'', CHR 0xC3, CHR 0xA9]
       (flag_value sample_h IDN2_NO_TR46) = (- 304, Some ''caf'')"
    by (simp add: eval_simps)
  have "(- 304) \<noteq> rc_value sample_h IDN2_OK"
    by (simp add: sample_h_def)
  with t p e have "idn2_utoa sample_h sample_lib [PyUnicode [0x63, 0x61, 0x66, 0xE9]] None
       = (None, setidn2errstr sample_h (- 304) None)"
    by blast
  with 3 have 4: "idn2_utoa sample_h sample_lib [PyUnicode [0x63, 0x61, 0x66, 0xE9]] None
       = (None, Some (Err Idn2Error ''String has disallowed character.''))"
    by simp
  from d 1 2 4 show ?thesis by blast
qed

subsection \<open>A call returns the library's output or raises the error that stopped it\<close>




subsection \<open>The A-label buffer is read as a C string\<close>

text \<open>
  \<open>register\<close> receives its second argument through unit \<open>z#\<close> and passes the buffer
  to the library without the length, so the library sees the bytes before the first
  null byte only: what follows it in a \<open>bytes\<close> argument has no influence on the call.
\<close>

lemma c_str_append_NUL: "c_str (a @ NUL # junk) = c_str a"
  by (induction a) (auto simp: c_str_def)

lemma idn2_register_reads_c_string:
  "idn2_register py h lib [u, PyBytes (a @ NUL # junk)] st
     = idn2_register py h lib [u, PyBytes a] st"
  by (cases "conv_z u")
    (simp_all add: idn2_register_def PyArg_ParseTuple_zz_hash_def conv_z_hash_def c_str_append_NUL)

end
